theory Spec2Isabelle
  imports Main "HOL-Library.Word"
begin

unbundle bit_operations_syntax

section \<open>Machine values\<close>

text \<open>
  The header \<^verbatim>\<open>FoliageCaptureActor.h\<close> works on C++ machine values. A \<^verbatim>\<open>uint32\<close> and an
  \<^verbatim>\<open>int32\<close> are 32-bit words (\<open>+\<close> wraps; \<open>sint\<close> reads the two's complement value). A
  \<^verbatim>\<open>float\<close> is kept as its IEEE 754 binary32 bit pattern: the only operation the header
  applies to a float is \<^verbatim>\<open>==\<close>, and that is a function of the two bit patterns. An object
  pointer is an address, \<open>0\<close> being \<^verbatim>\<open>nullptr\<close>.
\<close>

type_synonym uint32 = "32 word"
type_synonym int32 = "32 word"
type_synonym float32 = "32 word"
type_synonym ptr = nat

text \<open>A NaN has all exponent bits set and a non-zero mantissa; the sign bit is bit 31.\<close>

definition is_nan :: "float32 \<Rightarrow> bool" where
  "is_nan f = (0x7F800000 < (f AND 0x7FFFFFFF))"

definition is_zero :: "float32 \<Rightarrow> bool" where
  "is_zero f = ((f AND 0x7FFFFFFF) = 0)"

text \<open>
  The C++ \<^verbatim>\<open>a == b\<close> on floats: false as soon as one side is a NaN, true on \<open>+0.0\<close> against
  \<open>-0.0\<close>, and otherwise true exactly when the bit patterns agree (every other binary32
  value has one encoding).
\<close>

definition float_eq :: "float32 \<Rightarrow> float32 \<Rightarrow> bool" where
  "float_eq a b = (\<not> is_nan a \<and> \<not> is_nan b \<and> (a = b \<or> (is_zero a \<and> is_zero b)))"

section \<open>The data model of the header\<close>

text \<open>\<^verbatim>\<open>FFloatInterval\<close>: the engine's closed interval of floats, with members Min and Max.\<close>

record FFloatInterval =
  IntervalMin :: float32
  IntervalMax :: float32

text \<open>\<^verbatim>\<open>struct FFoliageGeometryType\<close>, the fields in the order of the header.\<close>

record FFoliageGeometryType =
  Density :: float32
  bRandomYaw :: bool
  ZOffset :: FFloatInterval
  Scale :: FFloatInterval
  bAlignToNormal :: bool
  Mesh :: ptr
  bCollidesWithWorld :: bool
  CullingDistances :: FFloatInterval
  bAffectsDistanceFieldLighting :: bool

text \<open>
  The header calls the engine's \<^verbatim>\<open>GetTypeHash\<close> overloads for \<^verbatim>\<open>float\<close>, \<^verbatim>\<open>bool\<close>,
  \<^verbatim>\<open>FFloatInterval\<close> and a pointer, and keys a \<^verbatim>\<open>TMap\<close> by the struct. These belong to the
  engine, not to this repository, so they are parameters of the model: four field hashes
  and the map's bucket index of a hash value.
\<close>

record engine =
  hash_float :: "float32 \<Rightarrow> uint32"
  hash_bool :: "bool \<Rightarrow> uint32"
  hash_interval :: "FFloatInterval \<Rightarrow> uint32"
  hash_ptr :: "ptr \<Rightarrow> uint32"
  hash_index :: "uint32 \<Rightarrow> nat"

text \<open>\<^verbatim>\<open>friend uint32 GetTypeHash(const FFoliageGeometryType& A)\<close>: a wrapping sum.\<close>

definition GetTypeHash :: "engine \<Rightarrow> FFoliageGeometryType \<Rightarrow> uint32" where
  "GetTypeHash en A =
     hash_float en (Density A) + hash_bool en (bRandomYaw A) + hash_interval en (ZOffset A) +
     hash_interval en (Scale A) + hash_ptr en (Mesh A) + hash_bool en (bCollidesWithWorld A) +
     hash_bool en (bAffectsDistanceFieldLighting A)"

text \<open>\<^verbatim>\<open>friend bool operator==(const FFoliageGeometryType& A, const FFoliageGeometryType& B)\<close>.\<close>

definition operator_eq :: "FFoliageGeometryType \<Rightarrow> FFoliageGeometryType \<Rightarrow> bool" where
  "operator_eq A B =
     (float_eq (Density A) (Density B) \<and> Mesh A = Mesh B \<and>
      bCollidesWithWorld A = bCollidesWithWorld B \<and>
      bAffectsDistanceFieldLighting A = bAffectsDistanceFieldLighting B \<and>
      float_eq (IntervalMax (Scale A)) (IntervalMax (Scale B)) \<and>
      float_eq (IntervalMin (Scale A)) (IntervalMin (Scale B)) \<and>
      bRandomYaw A = bRandomYaw B \<and>
      float_eq (IntervalMin (ZOffset A)) (IntervalMin (ZOffset B)) \<and>
      float_eq (IntervalMax (ZOffset A)) (IntervalMax (ZOffset B)))"

text \<open>
  Which fields the two functions read. \<open>same_pooling_fields A B\<close> says that \<open>A\<close> and \<open>B\<close>
  hold the same value in each of the nine places \<^verbatim>\<open>operator==\<close> looks at (mesh, density,
  collision flag, distance-field-lighting flag, both scale bounds, yaw flag, both offset
  bounds); \<open>no_nan_fields A\<close> says that none of the five floats among them is a NaN;
  \<open>same_zero_signs A B\<close> says that no compared float is \<open>+0.0\<close> on one side and \<open>-0.0\<close>
  on the other.
\<close>

definition same_pooling_fields :: "FFoliageGeometryType \<Rightarrow> FFoliageGeometryType \<Rightarrow> bool" where
  "same_pooling_fields A B =
     (Mesh A = Mesh B \<and> Density A = Density B \<and>
      bCollidesWithWorld A = bCollidesWithWorld B \<and>
      bAffectsDistanceFieldLighting A = bAffectsDistanceFieldLighting B \<and>
      IntervalMin (Scale A) = IntervalMin (Scale B) \<and>
      IntervalMax (Scale A) = IntervalMax (Scale B) \<and>
      bRandomYaw A = bRandomYaw B \<and>
      IntervalMin (ZOffset A) = IntervalMin (ZOffset B) \<and>
      IntervalMax (ZOffset A) = IntervalMax (ZOffset B))"

definition no_nan_fields :: "FFoliageGeometryType \<Rightarrow> bool" where
  "no_nan_fields A =
     (\<not> is_nan (Density A) \<and> \<not> is_nan (IntervalMax (Scale A)) \<and>
      \<not> is_nan (IntervalMin (Scale A)) \<and> \<not> is_nan (IntervalMin (ZOffset A)) \<and>
      \<not> is_nan (IntervalMax (ZOffset A)))"

definition zero_signs_agree :: "float32 \<Rightarrow> float32 \<Rightarrow> bool" where
  "zero_signs_agree a b = (\<not> (is_zero a \<and> is_zero b \<and> a \<noteq> b))"

definition same_zero_signs :: "FFoliageGeometryType \<Rightarrow> FFoliageGeometryType \<Rightarrow> bool" where
  "same_zero_signs A B =
     (zero_signs_agree (Density A) (Density B) \<and>
      zero_signs_agree (IntervalMax (Scale A)) (IntervalMax (Scale B)) \<and>
      zero_signs_agree (IntervalMin (Scale A)) (IntervalMin (Scale B)) \<and>
      zero_signs_agree (IntervalMin (ZOffset A)) (IntervalMin (ZOffset B)) \<and>
      zero_signs_agree (IntervalMax (ZOffset A)) (IntervalMax (ZOffset B)))"

section \<open>The pool map\<close>

text \<open>
  \<^verbatim>\<open>TMap<FFoliageGeometryType, TArray<UFoliageHISM*>> HISMFoliageMap\<close>. A hashed map keeps
  its entries in buckets chosen by the key's hash and, inside a bucket, compares keys
  with \<^verbatim>\<open>operator==\<close>. The model is the list of entries in iteration order; a stored
  key \<open>k\<close> answers a lookup of \<open>K\<close> when both fall into the same bucket and \<open>k == K\<close>.
\<close>

type_synonym 'v TMap = "(FFoliageGeometryType \<times> 'v) list"

definition KeyMatches :: "engine \<Rightarrow> FFoliageGeometryType \<Rightarrow> FFoliageGeometryType \<Rightarrow> bool" where
  "KeyMatches en k K =
     (hash_index en (GetTypeHash en k) = hash_index en (GetTypeHash en K) \<and> operator_eq k K)"

fun FindPair :: "engine \<Rightarrow> 'v TMap \<Rightarrow> FFoliageGeometryType \<Rightarrow> (FFoliageGeometryType \<times> 'v) option" where
  "FindPair en [] K = None"
| "FindPair en ((k, v) # m) K = (if KeyMatches en k K then Some (k, v) else FindPair en m K)"

definition Find :: "engine \<Rightarrow> 'v TMap \<Rightarrow> FFoliageGeometryType \<Rightarrow> 'v option" where
  "Find en m K = map_option snd (FindPair en m K)"

section \<open>Components, categories and the actor\<close>

text \<open>
  A pooled component \<^verbatim>\<open>UFoliageHISM\<close> is an engine object reached through a pointer. Of
  the object the header uses two things: whether \<^verbatim>\<open>IsValid(V)\<close> holds (the pointer is not
  null, the object exists and is not pending kill) and \<^verbatim>\<open>V->GetInstanceCount()\<close>. The
  object store maps an address to the object living there.
\<close>

record UFoliageHISM =
  bPendingKill :: bool
  NumInstances :: int32

type_synonym object_store = "ptr \<Rightarrow> UFoliageHISM option"

definition IsValid :: "object_store \<Rightarrow> ptr \<Rightarrow> bool" where
  "IsValid os V = (V \<noteq> 0 \<and> (case os V of None \<Rightarrow> False | Some h \<Rightarrow> \<not> bPendingKill h))"

definition HISM_GetInstanceCount :: "object_store \<Rightarrow> ptr \<Rightarrow> int32" where
  "HISM_GetInstanceCount os V = (case os V of None \<Rightarrow> 0 | Some h \<Rightarrow> NumInstances h)"

type_synonym FLinearColor = "float32 \<times> float32 \<times> float32 \<times> float32"
type_synonym FVector = "float32 \<times> float32 \<times> float32"
type_synonym FBox = "FVector \<times> FVector"

text \<open>\<^verbatim>\<open>struct FFoliageClassificationType\<close>.\<close>

record FFoliageClassificationType =
  Type :: string
  ColourClassification :: FLinearColor
  FoliageTypes :: "FFoliageGeometryType list"
  bAlignToSurfaceWithRaycast :: bool
  PooledHISMsToCreatePerFoliageType :: int32

text \<open>
  \<^verbatim>\<open>class AFoliageCaptureActor\<close>: its data members. The actor's own \<^verbatim>\<open>FoliageTypes\<close> is the
  list of categories; the field of the same name in a category is written
  \<open>FFoliageClassificationType.FoliageTypes\<close>.
\<close>

record AFoliageCaptureActor =
  FoliageTypes :: "FFoliageClassificationType list"
  Georeference :: ptr
  CaptureElevation :: float32
  CaptureWidth :: float32
  UpdateFoliageAfterNumFrames :: int32
  MaxComponentsToUpdatePerFrame :: int32
  GridSize :: "int32 \<times> int32 \<times> int32"
  CaptureWidthInDegrees :: "64 word"
  HISMFoliageMap :: "(ptr list) TMap"
  bIsBuilding :: bool
  Ticks :: int32

section \<open>GetInstanceCount\<close>

text \<open>
  \<^verbatim>\<open>inline int32 AFoliageCaptureActor::GetInstanceCount(float Delta)\<close>. The two nested
  \<^verbatim>\<open>for\<close> loops thread the pair \<^verbatim>\<open>(Count, bAnyHISMValid)\<close>: \<open>count_components\<close> is the
  inner loop over one pool, \<open>count_pools\<close> the outer loop over the map. \<^verbatim>\<open>Count\<close> is an
  \<^verbatim>\<open>int32\<close>, so \<^verbatim>\<open>Count += ...\<close> is the addition of 32-bit words.
\<close>

fun count_components :: "object_store \<Rightarrow> ptr list \<Rightarrow> int32 \<times> bool \<Rightarrow> int32 \<times> bool" where
  "count_components os [] acc = acc"
| "count_components os (V # Vs) (Count, bAnyHISMValid) =
     (if IsValid os V
      then count_components os Vs (Count + HISM_GetInstanceCount os V, True)
      else count_components os Vs (Count, bAnyHISMValid))"

fun count_pools :: "object_store \<Rightarrow> (ptr list) TMap \<Rightarrow> int32 \<times> bool \<Rightarrow> int32 \<times> bool" where
  "count_pools os [] acc = acc"
| "count_pools os (T # Ts) acc = count_pools os Ts (count_components os (snd T) acc)"

definition GetInstanceCount :: "object_store \<Rightarrow> AFoliageCaptureActor \<Rightarrow> float32 \<Rightarrow> int32" where
  "GetInstanceCount os a Delta =
     (case count_pools os (HISMFoliageMap a) (0, False) of
        (Count, bAnyHISMValid) \<Rightarrow> if bAnyHISMValid then Count else - 1)"

text \<open>
  What the specification says the function returns, written after its words: the sum,
  over all pools, of the instance counts of the live components; a pool none of whose
  components is valid adds nothing. \<open>any_valid\<close> says that some pool has a valid component.
\<close>

definition pool_instance_count :: "object_store \<Rightarrow> ptr list \<Rightarrow> int32" where
  "pool_instance_count os comps = sum_list (map (HISM_GetInstanceCount os) (filter (IsValid os) comps))"

definition live_instance_sum :: "object_store \<Rightarrow> (ptr list) TMap \<Rightarrow> int32" where
  "live_instance_sum os m = sum_list (map (\<lambda>T. pool_instance_count os (snd T)) m)"

definition any_valid :: "object_store \<Rightarrow> (ptr list) TMap \<Rightarrow> bool" where
  "any_valid os m = list_ex (\<lambda>T. list_ex (IsValid os) (snd T)) m"

text \<open>The live components of the whole map, and their counts read as integers.\<close>

definition live_components :: "object_store \<Rightarrow> (ptr list) TMap \<Rightarrow> ptr list" where
  "live_components os m = filter (IsValid os) (concat (map snd m))"

definition live_instance_total :: "object_store \<Rightarrow> (ptr list) TMap \<Rightarrow> int" where
  "live_instance_total os m =
     sum_list (map (\<lambda>V. sint (HISM_GetInstanceCount os V)) (live_components os m))"

definition counts_nonnegative :: "object_store \<Rightarrow> (ptr list) TMap \<Rightarrow> bool" where
  "counts_nonnegative os m =
     list_all (\<lambda>V. 0 \<le> sint (HISM_GetInstanceCount os V)) (live_components os m)"

section \<open>The member functions the header only declares\<close>

text \<open>
  The bodies of \<^verbatim>\<open>BuildFoliageTransforms\<close> and \<^verbatim>\<open>IsBuilding\<close> and of the handler bound
  to \<^verbatim>\<open>FOnRenderTargetRead\<close> are not in the header. They are modelled from the
  specification, each under a note that says which part is missing.
\<close>

text \<open>
  Modelled from the spec: the collaborators of section 6 are missing. What the member
  functions act on beyond the actor is the world: the object store and the readback
  requests issued to the buffer readback service (each the list of render targets it
  reads).
\<close>

record world =
  objects :: object_store
  readback_requests :: "(ptr list) list"

type_synonym state = "world \<times> AFoliageCaptureActor"

text \<open>
  Modelled from the spec: the body of \<^verbatim>\<open>IsBuilding\<close> is missing; section 6 gives the busy
  query \<^verbatim>\<open>isBuilding() -> bool\<close>, and the header keeps the busy flag in \<^verbatim>\<open>bIsBuilding\<close>.
\<close>

definition IsBuilding :: "AFoliageCaptureActor \<Rightarrow> bool" where
  "IsBuilding a = bIsBuilding a"

text \<open>
  Modelled from the spec: the body of \<^verbatim>\<open>BuildFoliageTransforms\<close> is missing. Section 4.6:
  \<^emph>\<open>Idle to ReadingBuffers on buildFoliageTransforms(classBuffer, normalDepthBuffer,
  worldBounds); sets busy flag true; rejects (no-op) a new build request while busy flag
  is already true\<close>; section 5: it \<^emph>\<open>returns immediately after issuing the readback
  request\<close>, one request for the two buffers.
\<close>

definition BuildFoliageTransforms :: "ptr \<Rightarrow> ptr \<Rightarrow> FBox \<Rightarrow> state \<Rightarrow> state" where
  "BuildFoliageTransforms FoliageDistributionMap NormalAndDepthMap RTWorldBounds s =
     (case s of (w, a) \<Rightarrow>
        if bIsBuilding a then (w, a)
        else (w\<lparr>readback_requests :=
                  readback_requests w @ [[FoliageDistributionMap, NormalAndDepthMap]]\<rparr>,
              a\<lparr>bIsBuilding := True\<rparr>))"

text \<open>
  Modelled from the spec: the handler the build binds to the \<^verbatim>\<open>FOnRenderTargetRead\<close>
  delegate is missing. Section 4.6: \<^emph>\<open>ReadingBuffers to Idle (busy=false) on readback
  failure; no pools are touched\<close>; on success the sampling and distribution stages run,
  which are not modelled and enter as the parameter \<open>SampleAndDistribute\<close>.
\<close>

definition OnRenderTargetRead :: "(state \<Rightarrow> state) \<Rightarrow> bool \<Rightarrow> state \<Rightarrow> state" where
  "OnRenderTargetRead SampleAndDistribute bSuccess s =
     (if bSuccess then SampleAndDistribute s
      else (case s of (w, a) \<Rightarrow> (w, a\<lparr>bIsBuilding := False\<rparr>)))"

section \<open>Concrete values\<close>

text \<open>
  A geometry type with the header's default member initialisers (density \<open>0.5\<close>, offsets
  \<open>0.0\<close>, scale \<open>1.0\<close>, culling distances \<open>4096\<close> and \<open>32768\<close>, as binary32 bit patterns) and
  a mesh at address \<open>1\<close>; the same with a quiet NaN, with \<open>+0.0\<close> and with \<open>-0.0\<close> as density.
\<close>

definition default_geometry :: FFoliageGeometryType where
  "default_geometry =
     \<lparr>Density = 0x3F000000, bRandomYaw = False,
      ZOffset = \<lparr>IntervalMin = 0, IntervalMax = 0\<rparr>,
      Scale = \<lparr>IntervalMin = 0x3F800000, IntervalMax = 0x3F800000\<rparr>,
      bAlignToNormal = False, Mesh = 1, bCollidesWithWorld = True,
      CullingDistances = \<lparr>IntervalMin = 0x45800000, IntervalMax = 0x47000000\<rparr>,
      bAffectsDistanceFieldLighting = False\<rparr>"

definition nan_geometry :: FFoliageGeometryType where
  "nan_geometry = default_geometry\<lparr>Density := 0x7FC00000\<rparr>"

definition positive_zero_geometry :: FFoliageGeometryType where
  "positive_zero_geometry = default_geometry\<lparr>Density := 0\<rparr>"

definition negative_zero_geometry :: FFoliageGeometryType where
  "negative_zero_geometry = default_geometry\<lparr>Density := 0x80000000\<rparr>"

text \<open>
  An instance of the engine parameters. The float hash is the bit pattern itself, which
  is how the engine's \<^verbatim>\<open>GetTypeHash(float)\<close> works (it reinterprets the float as a
  \<^verbatim>\<open>uint32\<close>). The other components are simple stand-ins: a bool hashes to \<open>0\<close> or \<open>1\<close>, a
  pointer to its address, an interval to the sum of the hashes of its bounds, and a map
  of sixteen buckets takes the low four bits of the hash.
\<close>

definition bit_pattern_engine :: engine where
  "bit_pattern_engine =
     \<lparr>hash_float = (\<lambda>f. f),
      hash_bool = (\<lambda>b. if b then 1 else 0),
      hash_interval = (\<lambda>i. IntervalMin i + IntervalMax i),
      hash_ptr = (\<lambda>p. of_nat p),
      hash_index = (\<lambda>h. unat (h AND 15))\<rparr>"


text \<open>
  A category with the header's defaults holding the default geometry type, an actor
  with the header's defaults configured with that category, and a world with no objects.
\<close>

definition grass :: FFoliageClassificationType where
  "grass =
     \<lparr>Type = ''Grass'', ColourClassification = (0, 0x3F800000, 0, 0x3F800000),
      FFoliageClassificationType.FoliageTypes = [default_geometry],
      bAlignToSurfaceWithRaycast = False, PooledHISMsToCreatePerFoliageType = 4\<rparr>"

definition example_actor :: AFoliageCaptureActor where
  "example_actor =
     \<lparr>FoliageTypes = [grass], Georeference = 0, CaptureElevation = 0x44800000,
      CaptureWidth = 0x48000000, UpdateFoliageAfterNumFrames = 2,
      MaxComponentsToUpdatePerFrame = 1, GridSize = (0, 0, 0),
      CaptureWidthInDegrees = 0x3F847AE147AE147B, HISMFoliageMap = [],
      bIsBuilding = False, Ticks = 0\<rparr>"

definition empty_world :: world where
  "empty_world = \<lparr>objects = (\<lambda>p. None), readback_requests = []\<rparr>"

text \<open>The same actor while a build is running.\<close>

definition busy_actor :: AFoliageCaptureActor where
  "busy_actor = example_actor\<lparr>bIsBuilding := True\<rparr>"

text \<open>
  A store with a valid component of three instances at address \<open>1\<close> and a component
  pending kill, of five instances, at address \<open>2\<close>; an actor whose map has a pool with
  both, and a second pool with a dangling address and a null pointer.
\<close>

definition example_store :: object_store where
  "example_store =
     (\<lambda>p. if p = 1 then Some \<lparr>bPendingKill = False, NumInstances = 3\<rparr>
          else if p = 2 then Some \<lparr>bPendingKill = True, NumInstances = 5\<rparr>
          else None)"

definition counting_actor :: AFoliageCaptureActor where
  "counting_actor =
     example_actor\<lparr>HISMFoliageMap := [(default_geometry, [1, 2]), (nan_geometry, [3, 0])]\<rparr>"

section \<open>Equality and hash of geometry types\<close>



lemma float_eq_refl: "float_eq a a = (\<not> is_nan a)"
  by (simp add: float_eq_def)

lemma float_eq_bits: "float_eq a b \<Longrightarrow> zero_signs_agree a b \<Longrightarrow> a = b"
  by (auto simp: float_eq_def zero_signs_agree_def)



text \<open>\<^verbatim>\<open>operator==\<close> is reflexive exactly on the values that compare no NaN.\<close>

lemma operator_eq_refl: "operator_eq A A = no_nan_fields A"
  by (auto simp: operator_eq_def no_nan_fields_def float_eq_refl)


lemma same_pooling_fields_intervals:
  assumes "same_pooling_fields A B"
  shows "Scale A = Scale B" and "ZOffset A = ZOffset B"
  using assms by (simp_all add: same_pooling_fields_def FFloatInterval.equality)

lemma same_pooling_fields_hash:
  "same_pooling_fields A B \<Longrightarrow> GetTypeHash en A = GetTypeHash en B"
proof -
  assume s: "same_pooling_fields A B"
  have "Density A = Density B" "bRandomYaw A = bRandomYaw B" "Mesh A = Mesh B"
    "bCollidesWithWorld A = bCollidesWithWorld B"
    "bAffectsDistanceFieldLighting A = bAffectsDistanceFieldLighting B"
    using s by (simp_all add: same_pooling_fields_def)
  then show ?thesis
    by (simp add: GetTypeHash_def same_pooling_fields_intervals [OF s])
qed

lemma same_pooling_fields_eq_left:
  "same_pooling_fields A B \<Longrightarrow> operator_eq A C = operator_eq B C"
  by (simp add: operator_eq_def same_pooling_fields_def)

lemma same_pooling_fields_eq_right:
  "same_pooling_fields A B \<Longrightarrow> operator_eq C A = operator_eq C B"
  by (simp add: operator_eq_def same_pooling_fields_def)

lemma same_pooling_fields_matches:
  "same_pooling_fields A B \<Longrightarrow> KeyMatches en k A = KeyMatches en k B"
  by (simp add: KeyMatches_def same_pooling_fields_hash [of A B]
      same_pooling_fields_eq_right [of A B])

lemma FindPair_cong_matches:
  "(\<And>k. KeyMatches en k A = KeyMatches en k B) \<Longrightarrow> FindPair en m A = FindPair en m B"
  by (induction m) auto

lemma same_pooling_fields_FindPair:
  "same_pooling_fields A B \<Longrightarrow> FindPair en m A = FindPair en m B"
  by (rule FindPair_cong_matches) (rule same_pooling_fields_matches)

lemma same_pooling_fields_update:
  "same_pooling_fields (A\<lparr>bAlignToNormal := n, CullingDistances := c\<rparr>) A"
  by (simp add: same_pooling_fields_def)


lemma operator_eq_same_pooling_fields:
  assumes "operator_eq A B" and "same_zero_signs A B"
  shows "same_pooling_fields A B"
proof -
  have "Density A = Density B"
    using assms by (intro float_eq_bits) (simp_all add: operator_eq_def same_zero_signs_def)
  moreover have "IntervalMax (Scale A) = IntervalMax (Scale B)"
    using assms by (intro float_eq_bits) (simp_all add: operator_eq_def same_zero_signs_def)
  moreover have "IntervalMin (Scale A) = IntervalMin (Scale B)"
    using assms by (intro float_eq_bits) (simp_all add: operator_eq_def same_zero_signs_def)
  moreover have "IntervalMin (ZOffset A) = IntervalMin (ZOffset B)"
    using assms by (intro float_eq_bits) (simp_all add: operator_eq_def same_zero_signs_def)
  moreover have "IntervalMax (ZOffset A) = IntervalMax (ZOffset B)"
    using assms by (intro float_eq_bits) (simp_all add: operator_eq_def same_zero_signs_def)
  ultimately show ?thesis
    using assms(1) by (simp add: same_pooling_fields_def operator_eq_def)
qed

text \<open>
  Whatever the other field hashes are, an engine whose float hash tells \<open>+0.0\<close> from
  \<open>-0.0\<close> gives different hashes to two values that differ in the sign of a zero density
  only, and these two values are \<^verbatim>\<open>==\<close>.
\<close>

lemma signed_zero_density_hash:
  assumes "hash_float en 0 \<noteq> hash_float en 0x80000000"
  shows "GetTypeHash en (A\<lparr>Density := 0\<rparr>) \<noteq> GetTypeHash en (A\<lparr>Density := 0x80000000\<rparr>)"
  using assms by (simp add: GetTypeHash_def)

lemma signed_zero_density_eq:
  assumes "no_nan_fields A"
  shows "operator_eq (A\<lparr>Density := 0\<rparr>) (A\<lparr>Density := 0x80000000\<rparr>)"
  using assms
  by (simp add: operator_eq_def no_nan_fields_def float_eq_refl)
    (simp add: float_eq_def is_nan_def is_zero_def)

lemmas geometry_defs =
  default_geometry_def nan_geometry_def positive_zero_geometry_def negative_zero_geometry_def

lemma no_nan_default_geometry: "no_nan_fields default_geometry"
  by (simp add: no_nan_fields_def default_geometry_def is_nan_def)




text \<open>Two values that are \<^verbatim>\<open>==\<close> compare no NaN.\<close>

lemma operator_eq_no_nan: "operator_eq A B \<Longrightarrow> no_nan_fields A"
  by (simp add: operator_eq_def no_nan_fields_def float_eq_def)


text \<open>
  Two values that are \<^verbatim>\<open>==\<close> and fall into different buckets do not share a pool: the
  map that stores a pool under the one does not find it under the other.
\<close>

lemma operator_eq_other_bucket_Find:
  assumes "operator_eq A B"
    and "hash_index en (GetTypeHash en A) \<noteq> hash_index en (GetTypeHash en B)"
  shows "Find en [(A, v)] A = Some v \<and> Find en [(A, v)] B = None"
  using assms by (simp add: Find_def KeyMatches_def operator_eq_refl operator_eq_no_nan)




text \<open>
  C9, amended. If \<open>A == B\<close> and no compared float is \<open>+0.0\<close> in one value and \<open>-0.0\<close> in
  the other, then \<open>GetTypeHash A = GetTypeHash B\<close>, under every engine.
\<close>

theorem hash_respects_equality_same_zero_signs:
  assumes "operator_eq A B" and "same_zero_signs A B"
  shows "GetTypeHash en A = GetTypeHash en B"
  using assms by (intro same_pooling_fields_hash operator_eq_same_pooling_fields)

theorem hash_respects_equality_same_zero_signs_witness:
  "operator_eq default_geometry (default_geometry\<lparr>bAlignToNormal := True\<rparr>) \<and>
   same_zero_signs default_geometry (default_geometry\<lparr>bAlignToNormal := True\<rparr>) \<and>
   GetTypeHash bit_pattern_engine default_geometry =
     GetTypeHash bit_pattern_engine (default_geometry\<lparr>bAlignToNormal := True\<rparr>)"
proof -
  have e: "operator_eq default_geometry (default_geometry\<lparr>bAlignToNormal := True\<rparr>)"
    by (simp add: operator_eq_def default_geometry_def float_eq_def is_nan_def)
  have z: "same_zero_signs default_geometry (default_geometry\<lparr>bAlignToNormal := True\<rparr>)"
    by (simp add: same_zero_signs_def zero_signs_agree_def)
  from e z hash_respects_equality_same_zero_signs [OF e z, of bit_pattern_engine]
  show ?thesis by simp
qed

text \<open>
  C9 as stated fails where the engine hashes a float by its bit pattern: the density
  \<open>+0.0\<close> is \<^verbatim>\<open>==\<close> to the density \<open>-0.0\<close>, and the two hashes differ.
\<close>

theorem hash_differs_on_signed_zero:
  "operator_eq positive_zero_geometry negative_zero_geometry \<and>
   GetTypeHash bit_pattern_engine positive_zero_geometry \<noteq>
     GetTypeHash bit_pattern_engine negative_zero_geometry"
  by (simp add: operator_eq_def geometry_defs float_eq_def is_nan_def is_zero_def
      GetTypeHash_def bit_pattern_engine_def)

text \<open>
  C10, amended. Two values that differ only in \<^verbatim>\<open>bAlignToNormal\<close> and
  \<^verbatim>\<open>CullingDistances\<close> have the same hash, find the same entry of every pool map and
  compare alike against every third value \<open>C\<close>; the two compare equal to each other
  exactly when none of the five compared floats is a NaN.
\<close>

theorem ignored_fields_keep_hash_and_entry:
  "GetTypeHash en (A\<lparr>bAlignToNormal := n, CullingDistances := c\<rparr>) = GetTypeHash en A \<and>
   FindPair en m (A\<lparr>bAlignToNormal := n, CullingDistances := c\<rparr>) = FindPair en m A \<and>
   operator_eq (A\<lparr>bAlignToNormal := n, CullingDistances := c\<rparr>) C = operator_eq A C \<and>
   operator_eq C (A\<lparr>bAlignToNormal := n, CullingDistances := c\<rparr>) = operator_eq C A \<and>
   operator_eq A (A\<lparr>bAlignToNormal := n, CullingDistances := c\<rparr>) = no_nan_fields A"
proof -
  let ?B = "A\<lparr>bAlignToNormal := n, CullingDistances := c\<rparr>"
  have same: "same_pooling_fields ?B A"
    by (rule same_pooling_fields_update)
  have "operator_eq A ?B = operator_eq A A"
    by (rule same_pooling_fields_eq_right [OF same])
  then have e: "operator_eq A ?B = no_nan_fields A"
    by (simp only: operator_eq_refl)
  have h: "GetTypeHash en ?B = GetTypeHash en A"
    by (rule same_pooling_fields_hash [OF same])
  have f: "FindPair en m ?B = FindPair en m A"
    by (rule same_pooling_fields_FindPair [OF same])
  have l: "operator_eq ?B C = operator_eq A C"
    by (rule same_pooling_fields_eq_left [OF same])
  have r: "operator_eq C ?B = operator_eq C A"
    by (rule same_pooling_fields_eq_right [OF same])
  from h f l r e show ?thesis by (intro conjI)
qed

text \<open>
  C10 as stated fails on a NaN: the geometry type with a NaN density does not compare
  equal to its copy with the other \<^verbatim>\<open>bAlignToNormal\<close>.
\<close>

theorem nan_geometry_differs_from_copy:
  "\<not> operator_eq nan_geometry (nan_geometry\<lparr>bAlignToNormal := True\<rparr>)"
  by (simp add: operator_eq_def geometry_defs float_eq_def is_nan_def)

section \<open>The instance count\<close>

text \<open>The loops add to the running count and keep or set the running flag.\<close>

lemma count_components_eq:
  "count_components os Vs (c, b) =
     (c + pool_instance_count os Vs, b \<or> list_ex (IsValid os) Vs)"
  by (induction Vs arbitrary: c b) (simp_all add: pool_instance_count_def add.assoc)

lemma count_pools_eq:
  "count_pools os m (c, b) = (c + live_instance_sum os m, b \<or> any_valid os m)"
proof (induction m arbitrary: c b)
  case Nil
  show ?case by (simp add: live_instance_sum_def any_valid_def)
next
  case (Cons T Ts)
  show ?case
    by (simp add: count_components_eq Cons.IH live_instance_sum_def any_valid_def add.assoc)
qed

lemma GetInstanceCount_eq:
  "GetInstanceCount os a Delta =
     (if any_valid os (HISMFoliageMap a) then live_instance_sum os (HISMFoliageMap a) else - 1)"
  by (simp add: GetInstanceCount_def count_pools_eq)

lemma pool_instance_count_invalid:
  "\<not> list_ex (IsValid os) comps \<Longrightarrow> pool_instance_count os comps = 0"
  by (induction comps) (simp_all add: pool_instance_count_def)

text \<open>A pool without a valid component can be taken out of the map: the result is the same.\<close>

lemma GetInstanceCount_invalid_pool:
  assumes "\<not> list_ex (IsValid os) comps"
  shows "GetInstanceCount os (a\<lparr>HISMFoliageMap := m1 @ (k, comps) # m2\<rparr>) Delta =
    GetInstanceCount os (a\<lparr>HISMFoliageMap := m1 @ m2\<rparr>) Delta"
  using assms
  by (simp add: GetInstanceCount_eq live_instance_sum_def any_valid_def
      pool_instance_count_invalid)

lemma live_instance_sum_components:
  "live_instance_sum os m = sum_list (map (HISM_GetInstanceCount os) (live_components os m))"
  by (induction m) (simp_all add: live_instance_sum_def live_components_def pool_instance_count_def)

lemma any_valid_components: "any_valid os m = (live_components os m \<noteq> [])"
  by (induction m) (auto simp: any_valid_def live_components_def list_ex_iff filter_empty_conv)

text \<open>Adding two non-negative \<^verbatim>\<open>int32\<close> whose sum fits does not wrap.\<close>

lemma sint_add_nonneg:
  fixes a b :: "32 word"
  assumes "0 \<le> sint a" "0 \<le> sint b" "sint a + sint b < 2 ^ 31"
  shows "sint (a + b) = sint a + sint b"
proof -
  have "sint (a + b) = signed_take_bit 31 (sint a + sint b)"
    by (simp add: sint_word_ariths)
  also have "\<dots> = sint a + sint b"
    using assms by (intro signed_take_bit_int_eq_self) simp_all
  finally show ?thesis .
qed

lemma sint_sum_list:
  fixes ws :: "32 word list"
  shows "list_all (\<lambda>w. 0 \<le> sint w) ws \<Longrightarrow> sum_list (map sint ws) < 2 ^ 31 \<Longrightarrow>
    sint (sum_list ws) = sum_list (map sint ws)"
proof (induction ws)
  case Nil
  show ?case by simp
next
  case (Cons w ws)
  from Cons.prems have w: "0 \<le> sint w" and rest: "list_all (\<lambda>w. 0 \<le> sint w) ws"
    by simp_all
  from rest have nonneg: "0 \<le> sum_list (map sint ws)"
    by (induction ws) simp_all
  from Cons.prems(2) w have small: "sum_list (map sint ws) < 2 ^ 31"
    by simp
  have ih: "sint (sum_list ws) = sum_list (map sint ws)"
    by (rule Cons.IH [OF rest small])
  have "sint (w + sum_list ws) = sint w + sint (sum_list ws)"
    using w nonneg Cons.prems(2) by (intro sint_add_nonneg) (simp_all add: ih)
  then show ?case by (simp add: ih)
qed

lemma live_instance_sum_total:
  assumes "counts_nonnegative os m" "live_instance_total os m < 2 ^ 31"
  shows "sint (live_instance_sum os m) = live_instance_total os m"
proof -
  let ?ws = "map (HISM_GetInstanceCount os) (live_components os m)"
  have "list_all (\<lambda>w. 0 \<le> sint w) ?ws"
    using assms(1) by (simp add: counts_nonnegative_def list_all_iff)
  moreover have "sum_list (map sint ?ws) < 2 ^ 31"
    using assms(2) by (simp add: live_instance_total_def comp_def)
  ultimately have "sint (sum_list ?ws) = sum_list (map sint ?ws)"
    by (rule sint_sum_list)
  then show ?thesis
    by (simp add: live_instance_sum_components live_instance_total_def comp_def)
qed

text \<open>
  C2. \<^verbatim>\<open>GetInstanceCount\<close> returns the sum of the instance counts of the live components
  over all pools when some component of the map is valid, and the sentinel \<open>-1\<close> when
  none is, so in every state it returns that sum or the sentinel. A pool none of whose
  components is valid adds zero: the result is the same with that pool taken out of the
  map. The sum is the \<^verbatim>\<open>int32\<close> sum: when the counts are not negative and their total
  is below \<open>2^31\<close>, the value returned is that total.
\<close>

theorem instance_count_sum_or_sentinel:
  "GetInstanceCount os a Delta =
     (if any_valid os (HISMFoliageMap a) then live_instance_sum os (HISMFoliageMap a) else - 1) \<and>
   (GetInstanceCount os a Delta = live_instance_sum os (HISMFoliageMap a) \<or>
    GetInstanceCount os a Delta = - 1) \<and>
   (\<not> list_ex (IsValid os) comps \<longrightarrow>
      pool_instance_count os comps = 0 \<and>
      GetInstanceCount os (a\<lparr>HISMFoliageMap := m1 @ (k, comps) # m2\<rparr>) Delta =
        GetInstanceCount os (a\<lparr>HISMFoliageMap := m1 @ m2\<rparr>) Delta) \<and>
   (any_valid os (HISMFoliageMap a) \<and> counts_nonnegative os (HISMFoliageMap a) \<and>
    live_instance_total os (HISMFoliageMap a) < 2 ^ 31 \<longrightarrow>
      sint (GetInstanceCount os a Delta) = live_instance_total os (HISMFoliageMap a))"
proof (intro conjI impI)
  show eq: "GetInstanceCount os a Delta =
      (if any_valid os (HISMFoliageMap a) then live_instance_sum os (HISMFoliageMap a) else - 1)"
    by (rule GetInstanceCount_eq)
  then show "GetInstanceCount os a Delta = live_instance_sum os (HISMFoliageMap a) \<or>
      GetInstanceCount os a Delta = - 1"
    by (cases "any_valid os (HISMFoliageMap a)") simp_all
  show "pool_instance_count os comps = 0" if "\<not> list_ex (IsValid os) comps"
    using that by (rule pool_instance_count_invalid)
  show "GetInstanceCount os (a\<lparr>HISMFoliageMap := m1 @ (k, comps) # m2\<rparr>) Delta =
      GetInstanceCount os (a\<lparr>HISMFoliageMap := m1 @ m2\<rparr>) Delta"
    if "\<not> list_ex (IsValid os) comps"
    using that by (rule GetInstanceCount_invalid_pool)
  show "sint (GetInstanceCount os a Delta) = live_instance_total os (HISMFoliageMap a)"
    if "any_valid os (HISMFoliageMap a) \<and> counts_nonnegative os (HISMFoliageMap a) \<and>
      live_instance_total os (HISMFoliageMap a) < 2 ^ 31"
    using that by (simp add: eq live_instance_sum_total)
qed

theorem instance_count_sum_or_sentinel_witness:
  "any_valid example_store (HISMFoliageMap counting_actor) \<and>
   counts_nonnegative example_store (HISMFoliageMap counting_actor) \<and>
   live_instance_total example_store (HISMFoliageMap counting_actor) = 3 \<and>
   sint (GetInstanceCount example_store counting_actor 0) = 3 \<and>
   \<not> list_ex (IsValid example_store) [3, 0] \<and>
   pool_instance_count example_store [3, 0] = 0"
proof -
  have v: "any_valid example_store (HISMFoliageMap counting_actor)"
    by (simp add: any_valid_def counting_actor_def example_store_def IsValid_def)
  have n: "counts_nonnegative example_store (HISMFoliageMap counting_actor)"
    by (simp add: counts_nonnegative_def live_components_def counting_actor_def
        example_store_def IsValid_def HISM_GetInstanceCount_def)
  have t: "live_instance_total example_store (HISMFoliageMap counting_actor) = 3"
    by (simp add: live_instance_total_def live_components_def counting_actor_def
        example_store_def IsValid_def HISM_GetInstanceCount_def)
  have i: "\<not> list_ex (IsValid example_store) [3, 0]"
    by (simp add: example_store_def IsValid_def)
  note sum = instance_count_sum_or_sentinel
    [of example_store counting_actor 0 "[3, 0]" "[]" nan_geometry "[]"]
  from sum have "any_valid example_store (HISMFoliageMap counting_actor) \<and>
      counts_nonnegative example_store (HISMFoliageMap counting_actor) \<and>
      live_instance_total example_store (HISMFoliageMap counting_actor) < 2 ^ 31 \<longrightarrow>
      sint (GetInstanceCount example_store counting_actor 0) =
        live_instance_total example_store (HISMFoliageMap counting_actor)"
    by (elim conjE)
  with v n have s: "sint (GetInstanceCount example_store counting_actor 0) = 3"
    by (simp add: t)
  from sum have "\<not> list_ex (IsValid example_store) [3, 0] \<longrightarrow>
      pool_instance_count example_store [3, 0] = 0 \<and>
      GetInstanceCount example_store (counting_actor\<lparr>HISMFoliageMap := [] @ (nan_geometry, [3, 0]) # []\<rparr>) 0 =
        GetInstanceCount example_store (counting_actor\<lparr>HISMFoliageMap := [] @ []\<rparr>) 0"
    by (elim conjE)
  with i have p: "pool_instance_count example_store [3, 0] = 0"
    by blast
  from v n t s i p show ?thesis by (intro conjI)
qed

section \<open>Builds and readback failure\<close>

text \<open>An idle actor accepts the build: one request is issued and the busy flag is set.\<close>

lemma build_accepted_while_idle:
  assumes "\<not> IsBuilding a"
  shows "BuildFoliageTransforms FoliageDistributionMap NormalAndDepthMap RTWorldBounds (w, a) =
    (w\<lparr>readback_requests :=
         readback_requests w @ [[FoliageDistributionMap, NormalAndDepthMap]]\<rparr>,
     a\<lparr>bIsBuilding := True\<rparr>)"
  using assms by (simp add: BuildFoliageTransforms_def IsBuilding_def)

text \<open>
  C3. While \<^verbatim>\<open>IsBuilding()\<close> is true, \<^verbatim>\<open>BuildFoliageTransforms\<close> leaves the world and the
  actor as they are: no readback request is added, and the busy flag, the tick counter
  and the pool map keep their values.
\<close>

theorem build_rejected_while_building:
  assumes "IsBuilding a"
  shows "BuildFoliageTransforms FoliageDistributionMap NormalAndDepthMap RTWorldBounds (w, a) = (w, a) \<and>
    readback_requests
      (fst (BuildFoliageTransforms FoliageDistributionMap NormalAndDepthMap RTWorldBounds (w, a))) =
      readback_requests w"
  using assms by (simp add: BuildFoliageTransforms_def IsBuilding_def)

theorem build_rejected_while_building_witness:
  "IsBuilding busy_actor \<and>
   BuildFoliageTransforms 10 11 ((0, 0, 0), (0, 0, 0)) (empty_world, busy_actor) =
     (empty_world, busy_actor)"
proof -
  have b: "IsBuilding busy_actor"
    by (simp add: IsBuilding_def busy_actor_def)
  from b build_rejected_while_building [OF b, of 10 11 "((0, 0, 0), (0, 0, 0))" empty_world]
  show ?thesis by simp
qed

text \<open>
  C4. A build started on an idle actor sets the busy flag and issues its readback
  request; when the readback then reports failure, the busy flag is clear again, the
  actor is what it was before the build (so no pool is touched), the objects of the
  world are what they were, and \<^verbatim>\<open>GetInstanceCount\<close> returns what it returned before.
\<close>

theorem readback_failure_aborts_build:
  assumes "\<not> IsBuilding a"
  shows "let s1 = BuildFoliageTransforms FoliageDistributionMap NormalAndDepthMap RTWorldBounds (w, a);
             s2 = OnRenderTargetRead SampleAndDistribute False s1
         in IsBuilding (snd s1) \<and>
            readback_requests (fst s1) =
              readback_requests w @ [[FoliageDistributionMap, NormalAndDepthMap]] \<and>
            \<not> IsBuilding (snd s2) \<and> snd s2 = a \<and>
            HISMFoliageMap (snd s2) = HISMFoliageMap a \<and> objects (fst s2) = objects w \<and>
            GetInstanceCount (objects (fst s2)) (snd s2) Delta = GetInstanceCount (objects w) a Delta"
proof -
  have idle: "a\<lparr>bIsBuilding := False\<rparr> = a"
    using assms by (simp add: IsBuilding_def)
  from assms show ?thesis
    by (simp add: Let_def build_accepted_while_idle [OF assms] OnRenderTargetRead_def
        IsBuilding_def idle)
qed

theorem readback_failure_aborts_build_witness:
  "\<not> IsBuilding example_actor \<and>
   OnRenderTargetRead id False
     (BuildFoliageTransforms 10 11 ((0, 0, 0), (0, 0, 0)) (empty_world, example_actor)) =
     (empty_world\<lparr>readback_requests := [[10, 11]]\<rparr>, example_actor)"
proof -
  have i: "\<not> IsBuilding example_actor"
    by (simp add: IsBuilding_def example_actor_def)
  have "snd (OnRenderTargetRead id False
      (BuildFoliageTransforms 10 11 ((0, 0, 0), (0, 0, 0)) (empty_world, example_actor))) =
      example_actor"
    using readback_failure_aborts_build [OF i, of 10 11 "((0, 0, 0), (0, 0, 0))" empty_world id]
    by (simp add: Let_def)
  moreover have "fst (OnRenderTargetRead id False
      (BuildFoliageTransforms 10 11 ((0, 0, 0), (0, 0, 0)) (empty_world, example_actor))) =
      empty_world\<lparr>readback_requests := [[10, 11]]\<rparr>"
    by (simp add: build_accepted_while_idle [OF i] OnRenderTargetRead_def empty_world_def)
  ultimately show ?thesis
    using i by (simp add: prod_eq_iff)
qed

end
